theory Spec2Isabelle
  imports Complex_Main "HOL-Library.Word"
begin

section \<open>JavaScript strings\<close>

text \<open>
  A JavaScript string is a sequence of UTF-16 code units; \<open>length\<close> counts code units.
  String literals of the source are ASCII and are written through \<open>js\<close>.
\<close>

type_synonym jschar = "16 word"
type_synonym jsstring = "jschar list"

definition js :: "string \<Rightarrow> jsstring" where
  "js s = map of_char s"

text \<open>
  The characters matched by \<open>\s\<close> in a regular expression and removed by
  \<open>String.prototype.trim\<close>: WhiteSpace and LineTerminator of ECMAScript (TAB, LF, VT, FF,
  CR, SP, NBSP, the Unicode space separators, LS, PS and the byte order mark).
\<close>

definition isWhiteSpace :: "jschar \<Rightarrow> bool" where
  "isWhiteSpace c \<longleftrightarrow>
     c \<in> {0x09, 0x0A, 0x0B, 0x0C, 0x0D, 0x20, 0xA0, 0x1680,
          0x2028, 0x2029, 0x202F, 0x205F, 0x3000, 0xFEFF}
     \<or> (0x2000 \<le> c \<and> c \<le> 0x200A)"

text \<open>The character class \<open>[\s,\n]\<close> of the separator pattern.\<close>

definition isSep :: "jschar \<Rightarrow> bool" where
  "isSep c \<longleftrightarrow> isWhiteSpace c \<or> c = of_char CHR '','' \<or> c = 0x0A"

text \<open>
  \<open>s.split(/[\s,\n]+/)\<close>: the pieces between the maximal runs of separator characters.
  A separator run at the start or at the end of the text leaves an empty piece there, and
  the empty text splits into one empty piece. \<open>cur\<close> is the piece read so far.
\<close>

function split_go :: "jsstring \<Rightarrow> jsstring \<Rightarrow> jsstring list" where
  "split_go cur [] = [cur]"
| "split_go cur (c # cs) =
     (if isSep c then cur # split_go [] (dropWhile isSep cs) else split_go (cur @ [c]) cs)"
  by pat_completeness auto
termination
  by (relation "measure (\<lambda>(cur, rest). length rest)")
     (auto intro: le_imp_less_Suc length_dropWhile_le)

definition split_sep :: "jsstring \<Rightarrow> jsstring list" where
  "split_sep s = split_go [] s"

definition trim :: "jsstring \<Rightarrow> jsstring" where
  "trim s = rev (dropWhile isWhiteSpace (rev (dropWhile isWhiteSpace s)))"

text \<open>\<open>s.includes(sub)\<close>: \<open>sub\<close> occurs in \<open>s\<close> as a contiguous run.\<close>

fun startsWith :: "jsstring \<Rightarrow> jsstring \<Rightarrow> bool" where
  "startsWith s [] = True"
| "startsWith [] (b # bs) = False"
| "startsWith (a # as) (b # bs) = (a = b \<and> startsWith as bs)"

fun includes_str :: "jsstring \<Rightarrow> jsstring \<Rightarrow> bool" where
  "includes_str [] sub = (sub = [])"
| "includes_str (a # as) sub = (startsWith (a # as) sub \<or> includes_str as sub)"

text \<open>The decimal digits of a number, as a template literal prints \<open>res.status\<close>.\<close>

function decimal :: "nat \<Rightarrow> jsstring" where
  "decimal n = (if n < 10 then [of_nat (48 + n)] else decimal (n div 10) @ [of_nat (48 + n mod 10)])"
  by pat_completeness auto
termination
  by (relation "measure id") auto


section \<open>Data model of the page\<close>

text \<open>
  The repository holds the page twice: in \<open>src/unnamed/part_000\<close> (the page of
  \<open>part_000\<close> below) and in \<open>src/frontend/pages/index.tsx\<close> (the page of \<open>index.tsx\<close>;
  its definitions carry the suffix \<open>_index\<close>). The type declarations at the head of both
  are modelled here. A nullable field is an option; a JavaScript number is a real, which
  covers every number that JSON can carry. The page of \<open>index.tsx\<close> declares
  \<open>ProductResult\<close> without the optional \<open>best_reviews\<close> and \<open>worst_reviews\<close>.
\<close>

record Review =
  review_id :: "jsstring option"
  author_name :: jsstring
  rating :: "real option"
  title :: jsstring
  body :: jsstring
  created_at :: "jsstring option"
  verified_purchase :: bool
  location :: "jsstring option"
  helpful_count :: real
  not_helpful_count :: real
  images :: "jsstring list"

record ProductResult =
  item_id :: jsstring
  product_url :: "jsstring option"
  scraped_at :: jsstring
  product_title :: "jsstring option"
  average_rating :: "real option"
  total_ratings :: "real option"
  total_reviews :: "real option"
  rating_breakdown :: "(jsstring \<times> real) list"
  reviews :: "Review list"
  best_reviews :: "Review list option"
  worst_reviews :: "Review list option"

record ErrorResult =
  item_id :: jsstring
  error :: jsstring

text \<open>
  \<open>type ApiResponse = { results?: ProductResult[]; errors?: ErrorResult[] }\<close>: both fields
  are optional.
\<close>

record ApiResponse =
  results :: "ProductResult list option"
  errors :: "ErrorResult list option"


section \<open>Tokenising and checking the identifiers\<close>

text \<open>
  \<open>itemIdsText.split(/[\s,\n]+/).map((i) => i.trim()).filter(Boolean)\<close>: the empty
  string is the only falsy string.
\<close>

definition tokenize :: "jsstring \<Rightarrow> jsstring list" where
  "tokenize text = filter (\<lambda>i. i \<noteq> []) (map trim (split_sep text))"

text \<open>\<open>id.replace(/-/g, '').replace(/_/g, '')\<close>\<close>

definition replace_all_empty :: "jschar \<Rightarrow> jsstring \<Rightarrow> jsstring" where
  "replace_all_empty c s = filter (\<lambda>x. x \<noteq> c) s"

definition cleaned :: "jsstring \<Rightarrow> jsstring" where
  "cleaned ident = replace_all_empty (of_char CHR ''_'') (replace_all_empty (of_char CHR ''-'') ident)"

text \<open>The character class \<open>[a-zA-Z0-9]\<close>.\<close>

definition isAlnum :: "jschar \<Rightarrow> bool" where
  "isAlnum c \<longleftrightarrow>
     (of_char CHR ''a'' \<le> c \<and> c \<le> of_char CHR ''z'')
     \<or> (of_char CHR ''A'' \<le> c \<and> c \<le> of_char CHR ''Z'')
     \<or> (of_char CHR ''0'' \<le> c \<and> c \<le> of_char CHR ''9'')"

text \<open>
  \<open>s.match(/^[a-zA-Z0-9]+$/)\<close> is not null: one character of the class or more, from the
  start of the string to its end.
\<close>

fun match_alnum_plus :: "jsstring \<Rightarrow> bool" where
  "match_alnum_plus [] = False"
| "match_alnum_plus [c] = isAlnum c"
| "match_alnum_plus (c # d # cs) = (isAlnum c \<and> match_alnum_plus (d # cs))"

text \<open>
  The predicate of the \<open>invalidIds\<close> filter of the page of \<open>part_000\<close>:
  \<open>id.length > 20 || id.length < 6 || !cleaned.match(/^[a-zA-Z0-9]+$/)\<close>.
\<close>

definition isInvalidId :: "jsstring \<Rightarrow> bool" where
  "isInvalidId ident \<longleftrightarrow>
     length ident > 20 \<or> length ident < 6 \<or> \<not> match_alnum_plus (cleaned ident)"

definition invalidIds :: "jsstring list \<Rightarrow> jsstring list" where
  "invalidIds ids = filter isInvalidId ids"

text \<open>
  The format rule as the specification words it: strip \<open>-\<close> and \<open>_\<close>, reject if the
  resulting length is below 6, or the original length is above 20, or the stripped string
  has a character that is not alphanumeric.
\<close>

definition spec_accepts :: "jsstring \<Rightarrow> bool" where
  "spec_accepts ident \<longleftrightarrow>
     length (cleaned ident) \<ge> 6 \<and> length ident \<le> 20 \<and> list_all isAlnum (cleaned ident)"


section \<open>The submit handler\<close>

text \<open>The state of the \<open>Home\<close> component: one field for each \<open>useState\<close>.\<close>

record Home_state =
  itemIdsText :: jsstring
  maxReviews :: real
  loading :: bool
  data :: "ApiResponse option"
  error :: "jsstring option"

text \<open>
  The request handed to \<open>fetch\<close>; \<open>item_ids\<close> and \<open>max_reviews_per_item\<close> are the two
  members of the object that \<open>JSON.stringify\<close> turns into the body; \<open>http_method\<close> is
  the \<open>method\<close> member of the options.
\<close>

record scrape_body =
  item_ids :: "jsstring list"
  max_reviews_per_item :: real

record request =
  url :: jsstring
  http_method :: jsstring
  headers :: "(jsstring \<times> jsstring) list"
  body :: scrape_body

text \<open>
  What the network answers. \<open>fetch\<close> rejects with a thrown value, or resolves with a
  response whose \<open>text()\<close> and \<open>json()\<close> may reject in turn; \<open>res.ok\<close> holds for a status
  from 200 to 299.
\<close>

datatype thrown = JsError jsstring | NotAnError

record response =
  status :: nat
  text_of :: "thrown + jsstring"
  json_of :: "thrown + ApiResponse"

datatype fetch_outcome = Rejects thrown | Resolves response

definition ok :: "response \<Rightarrow> bool" where
  "ok res \<longleftrightarrow> 200 \<le> status res \<and> status res \<le> 299"

text \<open>
  The body of the \<open>try\<close> block after the request is built: the parsed response, or the
  value thrown on the way.
\<close>

definition try_scrape :: "fetch_outcome \<Rightarrow> thrown + ApiResponse" where
  "try_scrape outcome =
     (case outcome of
        Rejects e \<Rightarrow> Inl e
      | Resolves res \<Rightarrow>
          if \<not> ok res then
            (case text_of res of
               Inl e \<Rightarrow> Inl e
             | Inr txt \<Rightarrow> Inl (JsError (if txt \<noteq> [] then txt else js ''HTTP '' @ decimal (status res))))
          else json_of res)"

text \<open>The message chosen in the \<open>catch\<close> block of the page of \<open>part_000\<close>.\<close>

definition errorMessage :: "thrown \<Rightarrow> jsstring" where
  "errorMessage err =
     (case err of
        NotAnError \<Rightarrow> js ''An error occurred while scraping. Please try again.''
      | JsError m \<Rightarrow>
          if includes_str m (js ''Failed to fetch'') \<or> includes_str m (js ''NetworkError'') then
            js ''Could not connect to server. Please check your internet connection and try again.''
          else if includes_str m (js ''timeout'') then
            js ''Request timed out. The server might be busy. Please try again in a moment.''
          else if includes_str m (js ''Maximum 10 items'') then m
          else if includes_str m (js ''valid Walmart item IDs'') then m
          else if m \<noteq> [] then m
          else js ''An error occurred while scraping. Please try again.'')"

text \<open>The message chosen in the \<open>catch\<close> block of \<open>src/frontend/pages/index.tsx\<close>.\<close>

definition errorMessage_index :: "thrown \<Rightarrow> jsstring" where
  "errorMessage_index err =
     (case err of JsError m \<Rightarrow> m | NotAnError \<Rightarrow> js ''Unknown error occurred'')"

definition invalidMessage :: "jsstring \<Rightarrow> jsstring" where
  "invalidMessage ident =
     js ''Oops! \"'' @ ident @
     js ''\" doesn't look like a valid Walmart SKU code. Please check and try again. (SKU codes are usually 6-20 characters)''"

definition scrape_request :: "jsstring \<Rightarrow> jsstring list \<Rightarrow> real \<Rightarrow> request" where
  "scrape_request endpoint ids n =
     \<lparr>url = endpoint, http_method = js ''POST'',
      headers = [(js ''Content-Type'', js ''application/json'')],
      body = \<lparr>item_ids = ids, max_reviews_per_item = n\<rparr>\<rparr>"

text \<open>
  \<open>try { ... setData(json) } catch (err) { ... setError(errorMessage) } finally
  { setLoading(false) }\<close>, entered after \<open>setLoading(true)\<close>. The result is the new state
  and the requests issued, in order.
\<close>

definition run_scrape ::
  "(thrown \<Rightarrow> jsstring) \<Rightarrow> Home_state \<Rightarrow> request \<Rightarrow> (request \<Rightarrow> fetch_outcome)
    \<Rightarrow> Home_state \<times> request list" where
  "run_scrape message s req fetch =
     (let s1 = s\<lparr>loading := True\<rparr>;
          s2 = (case try_scrape (fetch req) of
                  Inr json \<Rightarrow> s1\<lparr>data := Some json\<rparr>
                | Inl err \<Rightarrow> s1\<lparr>error := Some (message err)\<rparr>)
      in (s2\<lparr>loading := False\<rparr>, [req]))"

text \<open>
  \<open>handleSubmit\<close> of the page of \<open>part_000\<close>. \<open>e.preventDefault()\<close> and \<open>console.error\<close>
  change nothing of the state and are left out.
\<close>

definition handleSubmit ::
  "Home_state \<Rightarrow> (request \<Rightarrow> fetch_outcome) \<Rightarrow> Home_state \<times> request list" where
  "handleSubmit s fetch =
     (let s0 = s\<lparr>error := None, data := None\<rparr>;
          ids = tokenize (itemIdsText s)
      in if length ids = 0 then
           (s0\<lparr>error := Some (js ''Please enter at least one item ID.'')\<rparr>, [])
         else if length ids > 10 then
           (s0\<lparr>error := Some (js ''Maximum 10 items allowed. Please reduce the number of item IDs.'')\<rparr>, [])
         else
           (case invalidIds ids of
              bad # _ \<Rightarrow> (s0\<lparr>error := Some (invalidMessage bad)\<rparr>, [])
            | [] \<Rightarrow>
                run_scrape errorMessage s0
                  (scrape_request (js ''https://walmart-scraper-59d8.onrender.com/scrape'') ids (maxReviews s))
                  fetch))"

text \<open>\<open>handleSubmit\<close> of \<open>src/frontend/pages/index.tsx\<close>.\<close>

definition handleSubmit_index ::
  "Home_state \<Rightarrow> (request \<Rightarrow> fetch_outcome) \<Rightarrow> Home_state \<times> request list" where
  "handleSubmit_index s fetch =
     (let s0 = s\<lparr>error := None, data := None\<rparr>;
          ids = tokenize (itemIdsText s)
      in if length ids = 0 then
           (s0\<lparr>error := Some (js ''Please enter at least one item ID.'')\<rparr>, [])
         else
           run_scrape errorMessage_index s0
             (scrape_request (js ''http://localhost:8000/scrape'') ids (maxReviews s))
             fetch)"


section \<open>The form around the handler\<close>

text \<open>
  \<open>handleSubmit\<close> is the \<open>onSubmit\<close> handler of the form, and the form holds the control
  \<open><input id="maxReviews" type="number" value={maxReviews} min={1} max={10000}
  disabled={loading} .../>\<close> (\<open>max={500}\<close> in \<open>src/frontend/pages/index.tsx\<close>) and the
  button \<open><button type="submit" disabled={loading}>\<close>. The form is not marked
  \<open>noValidate\<close>: the submit button fires the submit event, and with it the handler, only
  when the value of the control is within \<open>min\<close> and \<open>max\<close> and is a whole number of steps
  (the default step, 1) away from \<open>min\<close>. Otherwise no event is fired and nothing changes.
  While \<open>loading\<close> holds, the button and the controls are disabled and no event is fired
  either.
\<close>

record number_input =
  min_attr :: real
  max_attr :: real

definition maxReviews_input :: number_input where
  "maxReviews_input = \<lparr>min_attr = 1, max_attr = 10000\<rparr>"

definition maxReviews_input_index :: number_input where
  "maxReviews_input_index = \<lparr>min_attr = 1, max_attr = 500\<rparr>"

definition satisfies_constraints :: "number_input \<Rightarrow> real \<Rightarrow> bool" where
  "satisfies_constraints inp v \<longleftrightarrow>
     min_attr inp \<le> v \<and> v \<le> max_attr inp \<and> of_int \<lfloor>v - min_attr inp\<rfloor> = v - min_attr inp"

definition submit_form ::
  "Home_state \<Rightarrow> (request \<Rightarrow> fetch_outcome) \<Rightarrow> Home_state \<times> request list" where
  "submit_form s fetch =
     (if loading s then (s, [])
      else if satisfies_constraints maxReviews_input (maxReviews s) then handleSubmit s fetch
      else (s, []))"

definition submit_form_index ::
  "Home_state \<Rightarrow> (request \<Rightarrow> fetch_outcome) \<Rightarrow> Home_state \<times> request list" where
  "submit_form_index s fetch =
     (if loading s then (s, [])
      else if satisfies_constraints maxReviews_input_index (maxReviews s) then handleSubmit_index s fetch
      else (s, []))"

text \<open>A network that gives the same answer to every request.\<close>

definition answering :: "fetch_outcome \<Rightarrow> request \<Rightarrow> fetch_outcome" where
  "answering outcome req = outcome"

text \<open>The request failed: \<open>fetch\<close> rejected, or the response has a status outside 200 to 299.\<close>

definition scrape_failed :: "fetch_outcome \<Rightarrow> bool" where
  "scrape_failed outcome = (case outcome of Rejects e \<Rightarrow> True | Resolves res \<Rightarrow> \<not> ok res)"


section \<open>Rendering\<close>

text \<open>
  \<open>x % 1\<close>: the remainder takes the sign of the dividend, so the integer part is cut off
  towards zero.
\<close>

definition rem1 :: "real \<Rightarrow> real" where
  "rem1 x = x - of_int (if 0 \<le> x then \<lfloor>x\<rfloor> else \<lceil>x\<rceil>)"

text \<open>What \<open>renderStars\<close> returns: the text \<open>N/A\<close>, or a span with one element for each star.\<close>

datatype 'a stars = NotAvailable | StarSpan "'a list"

text \<open>
  \<open>renderStars\<close> of the page of \<open>part_000\<close>. A star is drawn with a colour and an opacity;
  \<open>!rating\<close> holds for \<open>null\<close> and for 0.
\<close>

record star_style =
  color :: jsstring
  opacity :: real

definition renderStars :: "real option \<Rightarrow> star_style stars" where
  "renderStars rating_arg =
     (case rating_arg of
        None \<Rightarrow> NotAvailable
      | Some r \<Rightarrow>
          if r = 0 then NotAvailable
          else
            (let numRating = r;
                 fullStars = \<lfloor>numRating\<rfloor>;
                 hasHalf = (rem1 numRating \<ge> 1 / 2)
             in StarSpan
                  (map (\<lambda>i.
                     let isFilled = (int i < fullStars);
                         isHalf = (int i = fullStars \<and> hasHalf)
                     in \<lparr>color = (if isFilled then js ''#f59e0b''
                                   else if isHalf then js ''#f59e0b'' else js ''#e2e8f0''),
                         opacity = (if isHalf then 1 / 2 else 1)\<rparr>)
                   [0..<5])))"

text \<open>\<open>renderStars\<close> of \<open>src/frontend/pages/index.tsx\<close>: a star is drawn by its class name.\<close>

definition renderStars_index :: "real option \<Rightarrow> jsstring stars" where
  "renderStars_index rating_arg =
     (case rating_arg of
        None \<Rightarrow> NotAvailable
      | Some r \<Rightarrow>
          if r = 0 then NotAvailable
          else
            (let fullStars = \<lfloor>r\<rfloor>;
                 hasHalf = (rem1 r \<ge> 1 / 2)
             in StarSpan
                  (map (\<lambda>i.
                     if int i < fullStars then js ''star-filled''
                     else if int i = fullStars \<and> hasHalf then js ''star-half''
                     else js ''star-empty'')
                   [0..<5])))"

text \<open>A filled star and a half star, as each page draws them.\<close>

definition filled_style :: "star_style \<Rightarrow> bool" where
  "filled_style st \<longleftrightarrow> color st = js ''#f59e0b'' \<and> opacity st = 1"

definition half_style :: "star_style \<Rightarrow> bool" where
  "half_style st \<longleftrightarrow> color st = js ''#f59e0b'' \<and> opacity st = 1 / 2"

definition filled_class :: "jsstring \<Rightarrow> bool" where
  "filled_class c \<longleftrightarrow> c = js ''star-filled''"

definition half_class :: "jsstring \<Rightarrow> bool" where
  "half_class c \<longleftrightarrow> c = js ''star-half''"

definition count_where :: "('a \<Rightarrow> bool) \<Rightarrow> 'a stars \<Rightarrow> nat" where
  "count_where P out = (case out of NotAvailable \<Rightarrow> 0 | StarSpan xs \<Rightarrow> length (filter P xs))"

definition star_count :: "'a stars \<Rightarrow> nat" where
  "star_count out = (case out of NotAvailable \<Rightarrow> 0 | StarSpan xs \<Rightarrow> length xs)"

text \<open>
  The guards of the result sections: \<open>data && !loading\<close>, then
  \<open>data.results && data.results.length > 0\<close> and \<open>data.errors && data.errors.length > 0\<close>.
\<close>

definition shows_results :: "Home_state \<Rightarrow> bool" where
  "shows_results s =
     (case data s of
        None \<Rightarrow> False
      | Some d \<Rightarrow> \<not> loading s \<and> (case results d of None \<Rightarrow> False | Some rs \<Rightarrow> length rs > 0))"

definition shows_errors :: "Home_state \<Rightarrow> bool" where
  "shows_errors s =
     (case data s of
        None \<Rightarrow> False
      | Some d \<Rightarrow> \<not> loading s \<and> (case errors d of None \<Rightarrow> False | Some es \<Rightarrow> length es > 0))"

text \<open>The rating as the specification words it: an integer from 1 to 5, or absent.\<close>

definition spec_rating :: "real option \<Rightarrow> bool" where
  "spec_rating r = (case r of None \<Rightarrow> True | Some v \<Rightarrow> of_int \<lfloor>v\<rfloor> = v \<and> 1 \<le> v \<and> v \<le> 5)"


section \<open>The review parser of the server\<close>

text \<open>
  Modelled from the spec: the Review Parser of the server (section 4.4 of the
  specification, contract \<open>parse(RawReviewBlock) -> Review | Skip\<close>); no code of the server
  is under \<open>src/\<close>. A raw review block is modelled by what the extractor of each field
  finds in it, \<open>None\<close> where the field is missing or cannot be extracted.
\<close>

record RawReviewBlock =
  id_field :: "jsstring option"
  name_field :: "jsstring option"
  star_count_indicator :: "int option"
  title_field :: "jsstring option"
  body_field :: "jsstring option"
  date_text :: "jsstring option"
  verified_marker :: "bool option"
  location_field :: "jsstring option"
  helpful_votes :: "nat option"
  not_helpful_votes :: "nat option"
  image_urls :: "jsstring list"

text \<open>Modelled from the spec: what parsing one block gives, a review or \<open>Skip\<close>.\<close>

datatype parse_outcome = Skip | Parsed Review

text \<open>
  Modelled from the spec: the rating is read from the star-count indicator, and a missing
  indicator gives null. A rating of the data model is an integer from 1 to 5 (section 3),
  and a field that cannot be read is degraded to its fallback, never raised on: an
  indicator that shows no count from 1 to 5 gives null as a missing one does.
\<close>

definition parse_rating :: "int option \<Rightarrow> real option" where
  "parse_rating indicator =
     (case indicator of
        None \<Rightarrow> None
      | Some n \<Rightarrow> if 1 \<le> n \<and> n \<le> 5 then Some (of_int n) else None)"

text \<open>
  Modelled from the spec: the author is read from the name field, and a missing one gives
  a placeholder string, never null. The specification names no particular placeholder;
  it is a parameter here.
\<close>

definition parse_author :: "jsstring \<Rightarrow> jsstring option \<Rightarrow> jsstring" where
  "parse_author placeholder field = (case field of None \<Rightarrow> placeholder | Some name \<Rightarrow> name)"

text \<open>Modelled from the spec: a title or a body that is not found is the empty string.\<close>

definition text_or_empty :: "jsstring option \<Rightarrow> jsstring" where
  "text_or_empty field = (case field of None \<Rightarrow> [] | Some t \<Rightarrow> t)"

text \<open>
  Modelled from the spec: \<open>parse\<close>. Each field is extracted on its own with its own
  fallback; the block gives \<open>Skip\<close> only when both the author and the body cannot be
  extracted. A date is normalised when a pattern is recognised and left null otherwise
  (the normalisation is a parameter), \<open>verified_purchase\<close> defaults to false and the two
  counts to 0.
\<close>

definition parse ::
  "jsstring \<Rightarrow> (jsstring \<Rightarrow> jsstring option) \<Rightarrow> RawReviewBlock \<Rightarrow> parse_outcome" where
  "parse placeholder normalize_date block =
     (if name_field block = None \<and> body_field block = None then Skip
      else Parsed
        \<lparr>review_id = id_field block,
         author_name = parse_author placeholder (name_field block),
         rating = parse_rating (star_count_indicator block),
         title = text_or_empty (title_field block),
         body = text_or_empty (body_field block),
         created_at = (case date_text block of None \<Rightarrow> None | Some d \<Rightarrow> normalize_date d),
         verified_purchase = (case verified_marker block of None \<Rightarrow> False | Some v \<Rightarrow> v),
         location = location_field block,
         helpful_count = (case helpful_votes block of None \<Rightarrow> 0 | Some k \<Rightarrow> real k),
         not_helpful_count = (case not_helpful_votes block of None \<Rightarrow> 0 | Some k \<Rightarrow> real k),
         images = image_urls block\<rparr>)"

text \<open>
  Modelled from the spec: the parser over the sequence of blocks of one item. A block that
  gives \<open>Skip\<close> is left out and the sequence goes on; the reviews keep the order of their
  blocks.
\<close>

fun parse_all ::
  "jsstring \<Rightarrow> (jsstring \<Rightarrow> jsstring option) \<Rightarrow> RawReviewBlock list \<Rightarrow> Review list" where
  "parse_all placeholder normalize_date [] = []"
| "parse_all placeholder normalize_date (block # blocks) =
     (case parse placeholder normalize_date block of
        Skip \<Rightarrow> parse_all placeholder normalize_date blocks
      | Parsed review \<Rightarrow> review # parse_all placeholder normalize_date blocks)"


section \<open>Sample inputs\<close>

text \<open>
  The state of a page on which a text and a number have been entered and nothing else has
  happened: \<open>loading\<close>, \<open>data\<close> and \<open>error\<close> still hold the initial values of their
  \<open>useState\<close>.
\<close>

definition entered :: "jsstring \<Rightarrow> real \<Rightarrow> Home_state" where
  "entered txt n = \<lparr>itemIdsText = txt, maxReviews = n, loading = False, data = None, error = None\<rparr>"

text \<open>A response with status 200 whose body parses to the given value.\<close>

definition ok_with :: "ApiResponse \<Rightarrow> fetch_outcome" where
  "ok_with j = Resolves \<lparr>status = 200, text_of = Inl NotAnError, json_of = Inr j\<rparr>"

text \<open>
  The product result that the README of the repository shows, and a response that holds
  it next to one error entry.
\<close>

definition sample_review :: Review where
  "sample_review =
     \<lparr>review_id = None, author_name = js ''John Doe'', rating = Some 5,
      title = js ''Great product!'', body = js ''This product exceeded my expectations...'',
      created_at = Some (js ''2025-10-01''), verified_purchase = True, location = None,
      helpful_count = 3, not_helpful_count = 0, images = []\<rparr>"

definition sample_product :: ProductResult where
  "sample_product =
     \<lparr>ProductResult.item_id = js ''5337824985'',
      product_url = Some (js ''https://www.walmart.com/ip/5337824985''),
      scraped_at = js ''2025-12-05T17:55:44.881270+00:00'',
      product_title = Some (js ''Product Name''),
      average_rating = Some (43 / 10), total_ratings = None, total_reviews = Some 128,
      rating_breakdown = [(js ''5'', 80), (js ''4'', 25), (js ''3'', 10), (js ''2'', 7), (js ''1'', 6)],
      reviews = [sample_review], best_reviews = None, worst_reviews = None\<rparr>"

definition sample_response :: ApiResponse where
  "sample_response =
     \<lparr>results = Some [sample_product],
      errors = Some [\<lparr>ErrorResult.item_id = js ''bad'', ErrorResult.error = js ''InvalidFormat''\<rparr>]\<rparr>"

text \<open>
  Three raw blocks: one with every field of the review above, one with a body and an
  image and neither name, rating nor title, and one with a star count and neither name nor
  body.
\<close>

definition sample_block :: RawReviewBlock where
  "sample_block =
     \<lparr>id_field = None, name_field = Some (js ''John Doe''), star_count_indicator = Some 5,
      title_field = Some (js ''Great product!''),
      body_field = Some (js ''This product exceeded my expectations...''),
      date_text = Some (js ''2025-10-01''), verified_marker = Some True, location_field = None,
      helpful_votes = Some 3, not_helpful_votes = Some 0, image_urls = []\<rparr>"

definition bare_block :: RawReviewBlock where
  "bare_block =
     \<lparr>id_field = None, name_field = None, star_count_indicator = None, title_field = None,
      body_field = Some (js ''Works.''), date_text = None, verified_marker = None,
      location_field = None, helpful_votes = None, not_helpful_votes = None,
      image_urls = [js ''https://i5.walmartimages.com/a.jpg'']\<rparr>"

definition stars_only_block :: RawReviewBlock where
  "stars_only_block =
     \<lparr>id_field = None, name_field = None, star_count_indicator = Some 4, title_field = None,
      body_field = None, date_text = None, verified_marker = None,
      location_field = None, helpful_votes = None, not_helpful_votes = None, image_urls = []\<rparr>"

text \<open>Eleven identifiers, each well formed.\<close>

definition eleven_ids :: jsstring where
  "eleven_ids =
     js ''100001 100002 100003 100004 100005 100006 100007 100008 100009 100010 100011''"


section \<open>Properties of the identifier check\<close>

lemma match_alnum_plus_iff: "match_alnum_plus s \<longleftrightarrow> s \<noteq> [] \<and> list_all isAlnum s"
  by (induction s rule: match_alnum_plus.induct) auto

lemma length_cleaned_le: "length (cleaned ident) \<le> length ident"
  unfolding cleaned_def replace_all_empty_def
  by (rule le_trans [OF length_filter_le length_filter_le])

lemma cleaned_filter:
  "cleaned ident = filter (\<lambda>x. x \<noteq> of_char CHR ''-'' \<and> x \<noteq> of_char CHR ''_'') ident"
  by (auto simp: cleaned_def replace_all_empty_def intro: filter_cong)

lemma tokenize_no_empty: "[] \<notin> set (tokenize txt)"
  by (simp add: tokenize_def)

lemma invalidIds_Nil_iff: "invalidIds ids = [] \<longleftrightarrow> (\<forall>ident \<in> set ids. \<not> isInvalidId ident)"
  by (auto simp: invalidIds_def filter_empty_conv)

lemma spec_accepts_imp_valid: "spec_accepts ident \<Longrightarrow> \<not> isInvalidId ident"
  using length_cleaned_le [of ident]
  by (auto simp: spec_accepts_def isInvalidId_def match_alnum_plus_iff)

lemma tokenize_one: "tokenize (js ''5337824985'') = [js ''5337824985'']"
  by (simp add: tokenize_def split_sep_def js_def isSep_def isWhiteSpace_def trim_def)

lemma tokenize_two: "tokenize (js ''5337824985,bad'') = [js ''5337824985'', js ''bad'']"
  by (simp add: tokenize_def split_sep_def js_def isSep_def isWhiteSpace_def trim_def)

lemma tokenize_eleven: "length (tokenize eleven_ids) = 11"
  by (simp add: eleven_ids_def tokenize_def split_sep_def js_def isSep_def isWhiteSpace_def trim_def)

lemma tokenize_separators_only: "tokenize (js '' ,  '') = []"
  by (simp add: tokenize_def split_sep_def js_def isSep_def isWhiteSpace_def trim_def)

lemma valid_5337824985: "\<not> isInvalidId (js ''5337824985'')"
  by (simp add: isInvalidId_def cleaned_def replace_all_empty_def js_def isAlnum_def)

lemma invalid_bad: "isInvalidId (js ''bad'')"
  by (simp add: isInvalidId_def js_def)

lemma dash_underscore_not_alnum:
  "\<not> isAlnum (of_char CHR ''-'')" "\<not> isAlnum (of_char CHR ''_'')"
  by (simp_all add: isAlnum_def)

lemma cleaned_nonempty_iff:
  "cleaned ident \<noteq> [] \<longleftrightarrow>
      (\<exists>c \<in> set ident. c \<noteq> of_char CHR ''-'' \<and> c \<noteq> of_char CHR ''_'')"
  by (auto simp: cleaned_filter filter_empty_conv)

lemma cleaned_alnum_iff:
  "list_all isAlnum (cleaned ident) \<longleftrightarrow>
      (\<forall>c \<in> set ident. isAlnum c \<or> c = of_char CHR ''-'' \<or> c = of_char CHR ''_'')"
  by (auto simp: cleaned_filter list_all_iff)

lemma accepted_shape:
  assumes "\<not> isInvalidId ident"
  shows "6 \<le> length ident \<and> length ident \<le> 20
      \<and> (\<forall>c \<in> set ident. isAlnum c \<or> c = of_char CHR ''-'' \<or> c = of_char CHR ''_'')
      \<and> (\<exists>c \<in> set ident. isAlnum c)"
proof -
  from assms have len: "6 \<le> length ident" "length ident \<le> 20"
    and ne: "cleaned ident \<noteq> []" and al: "list_all isAlnum (cleaned ident)"
    by (auto simp: isInvalidId_def match_alnum_plus_iff)
  from al have every: "\<forall>c \<in> set ident. isAlnum c \<or> c = of_char CHR ''-'' \<or> c = of_char CHR ''_''"
    by (simp only: cleaned_alnum_iff)
  from ne obtain c where c: "c \<in> set ident" "c \<noteq> of_char CHR ''-''" "c \<noteq> of_char CHR ''_''"
    unfolding cleaned_nonempty_iff by auto
  with every have "isAlnum c" by auto
  with c(1) have "\<exists>c \<in> set ident. isAlnum c" ..
  with len every show ?thesis
    by (intro conjI)
qed

lemma shape_accepted:
  assumes "6 \<le> length ident" and "length ident \<le> 20"
    and "\<forall>c \<in> set ident. isAlnum c \<or> c = of_char CHR ''-'' \<or> c = of_char CHR ''_''"
    and "\<exists>c \<in> set ident. isAlnum c"
  shows "\<not> isInvalidId ident"
proof -
  from assms(4) obtain c where c: "c \<in> set ident" "isAlnum c" ..
  with dash_underscore_not_alnum have "c \<noteq> of_char CHR ''-'' \<and> c \<noteq> of_char CHR ''_''"
    by auto
  with c(1) have "cleaned ident \<noteq> []"
    unfolding cleaned_nonempty_iff ..
  moreover from assms(3) have "list_all isAlnum (cleaned ident)"
    by (simp only: cleaned_alnum_iff)
  ultimately show ?thesis
    using assms(1,2) by (simp add: isInvalidId_def match_alnum_plus_iff)
qed

text \<open>
  What the check of the page of \<open>part_000\<close> accepts: an identifier that itself has from 6
  to 20 characters, each of them a letter \<open>a-z\<close> or \<open>A-Z\<close>, a digit, \<open>-\<close> or \<open>_\<close>, and at
  least one of them a letter or a digit. The \<open>invalidIds\<close> filter keeps the identifiers of
  the list that fail the check, and every identifier that passes the rule as the
  specification words it passes the check.
\<close>

lemma validator_accepts_iff:
  "(\<not> isInvalidId ident \<longleftrightarrow>
      6 \<le> length ident \<and> length ident \<le> 20
      \<and> (\<forall>c \<in> set ident. isAlnum c \<or> c = of_char CHR ''-'' \<or> c = of_char CHR ''_'')
      \<and> (\<exists>c \<in> set ident. isAlnum c))
   \<and> (ident \<in> set (invalidIds ids) \<longleftrightarrow> ident \<in> set ids \<and> isInvalidId ident)
   \<and> (spec_accepts ident \<longrightarrow> \<not> isInvalidId ident)"
proof -
  have shape: "\<not> isInvalidId ident \<longleftrightarrow>
      6 \<le> length ident \<and> length ident \<le> 20
      \<and> (\<forall>c \<in> set ident. isAlnum c \<or> c = of_char CHR ''-'' \<or> c = of_char CHR ''_'')
      \<and> (\<exists>c \<in> set ident. isAlnum c)"
  proof
    assume "\<not> isInvalidId ident"
    then show "6 \<le> length ident \<and> length ident \<le> 20
      \<and> (\<forall>c \<in> set ident. isAlnum c \<or> c = of_char CHR ''-'' \<or> c = of_char CHR ''_'')
      \<and> (\<exists>c \<in> set ident. isAlnum c)"
      by (rule accepted_shape)
  next
    assume "6 \<le> length ident \<and> length ident \<le> 20
      \<and> (\<forall>c \<in> set ident. isAlnum c \<or> c = of_char CHR ''-'' \<or> c = of_char CHR ''_'')
      \<and> (\<exists>c \<in> set ident. isAlnum c)"
    then show "\<not> isInvalidId ident"
      by (elim conjE) (rule shape_accepted)
  qed
  have kept: "ident \<in> set (invalidIds ids) \<longleftrightarrow> ident \<in> set ids \<and> isInvalidId ident"
    by (simp add: invalidIds_def)
  have wider: "spec_accepts ident \<longrightarrow> \<not> isInvalidId ident"
    by (rule impI) (rule spec_accepts_imp_valid)
  show ?thesis
    by (rule conjI [OF shape conjI [OF kept wider]])
qed

text \<open>
  Claim C1. The claim has the validator reject an identifier with fewer than 6 characters
  left after stripping \<open>-\<close> and \<open>_\<close>, and the comment above the check reads
  \<open>Validate item ID format (6-20 alphanumeric characters)\<close>. The check compares the length
  of the identifier as it was entered: \<open>ab-cd-\<close> has six characters, four of them left
  after stripping, and the \<open>invalidIds\<close> filter does not keep it.
\<close>

theorem short_stripped_id_accepted:
  "length (js ''ab-cd-'') = 6
   \<and> cleaned (js ''ab-cd-'') = js ''abcd''
   \<and> \<not> spec_accepts (js ''ab-cd-'')
   \<and> \<not> isInvalidId (js ''ab-cd-'')
   \<and> invalidIds [js ''ab-cd-''] = []"
  by (simp add: isInvalidId_def invalidIds_def spec_accepts_def cleaned_def replace_all_empty_def
      js_def isAlnum_def)


section \<open>Properties of the submit handlers\<close>

lemma run_scrape_requests: "snd (run_scrape message s req fetch) = [req]"
  by (simp add: run_scrape_def Let_def)

lemma run_scrape_loading: "loading (fst (run_scrape message s req fetch)) = False"
  by (simp add: run_scrape_def Let_def)

lemma try_scrape_failed: "scrape_failed outcome \<Longrightarrow> \<exists>e. try_scrape outcome = Inl e"
  by (auto simp: scrape_failed_def try_scrape_def split: fetch_outcome.splits sum.splits)

lemma run_scrape_failed_data:
  "scrape_failed (fetch req) \<Longrightarrow> data (fst (run_scrape message s req fetch)) = data s"
  by (auto simp: run_scrape_def Let_def dest!: try_scrape_failed)

lemma run_scrape_ok_data:
  "fetch req = Resolves res \<Longrightarrow> ok res \<Longrightarrow> json_of res = Inr j
    \<Longrightarrow> fst (run_scrape message s req fetch) = s\<lparr>loading := False, data := Some j\<rparr>"
  by (simp add: run_scrape_def Let_def try_scrape_def)

lemma handleSubmit_accepted:
  assumes "tokenize (itemIdsText s) \<noteq> []" and "length (tokenize (itemIdsText s)) \<le> 10"
    and "\<forall>ident \<in> set (tokenize (itemIdsText s)). \<not> isInvalidId ident"
  shows "handleSubmit s fetch =
           run_scrape errorMessage (s\<lparr>error := None, data := None\<rparr>)
             (scrape_request (js ''https://walmart-scraper-59d8.onrender.com/scrape'')
                (tokenize (itemIdsText s)) (maxReviews s)) fetch"
proof -
  from assms(3) have "invalidIds (tokenize (itemIdsText s)) = []"
    by (simp add: invalidIds_Nil_iff)
  with assms(1,2) show ?thesis
    by (simp add: handleSubmit_def Let_def)
qed

lemma handleSubmit_rejected:
  assumes "tokenize (itemIdsText s) = [] \<or> length (tokenize (itemIdsText s)) > 10
           \<or> (\<exists>ident \<in> set (tokenize (itemIdsText s)). isInvalidId ident)"
  shows "snd (handleSubmit s fetch) = []"
    and "error (fst (handleSubmit s fetch)) \<noteq> None"
    and "data (fst (handleSubmit s fetch)) = None"
    and "loading (fst (handleSubmit s fetch)) = loading s"
proof -
  have inv: "invalidIds (tokenize (itemIdsText s)) \<noteq> []"
    if "\<exists>ident \<in> set (tokenize (itemIdsText s)). isInvalidId ident"
    using that by (simp add: invalidIds_Nil_iff)
  show "snd (handleSubmit s fetch) = []"
    using assms inv by (auto simp: handleSubmit_def Let_def split: list.splits)
  show "error (fst (handleSubmit s fetch)) \<noteq> None"
    using assms inv by (auto simp: handleSubmit_def Let_def split: list.splits)
  show "data (fst (handleSubmit s fetch)) = None"
    using assms inv by (auto simp: handleSubmit_def Let_def split: list.splits)
  show "loading (fst (handleSubmit s fetch)) = loading s"
    using assms inv by (auto simp: handleSubmit_def Let_def split: list.splits)
qed

lemma handleSubmit_cases:
  "(snd (handleSubmit s fetch) = [] \<and> data (fst (handleSubmit s fetch)) = None)
   \<or> handleSubmit s fetch =
        run_scrape errorMessage (s\<lparr>error := None, data := None\<rparr>)
          (scrape_request (js ''https://walmart-scraper-59d8.onrender.com/scrape'')
             (tokenize (itemIdsText s)) (maxReviews s)) fetch"
proof (cases "tokenize (itemIdsText s) = [] \<or> length (tokenize (itemIdsText s)) > 10
           \<or> (\<exists>ident \<in> set (tokenize (itemIdsText s)). isInvalidId ident)")
  case True
  then show ?thesis
    using handleSubmit_rejected(1,3) [of s fetch] by blast
next
  case False
  then show ?thesis
    using handleSubmit_accepted [of s fetch] by auto
qed

lemma handleSubmit_index_sent:
  assumes "tokenize (itemIdsText s) \<noteq> []"
  shows "handleSubmit_index s fetch =
           run_scrape errorMessage_index (s\<lparr>error := None, data := None\<rparr>)
             (scrape_request (js ''http://localhost:8000/scrape'')
                (tokenize (itemIdsText s)) (maxReviews s)) fetch"
  using assms by (simp add: handleSubmit_index_def Let_def)

lemma handleSubmit_index_empty:
  assumes "tokenize (itemIdsText s) = []"
  shows "handleSubmit_index s fetch =
           (s\<lparr>error := Some (js ''Please enter at least one item ID.''), data := None\<rparr>, [])"
  using assms by (simp add: handleSubmit_index_def Let_def)

lemma handleSubmit_index_cases:
  "(snd (handleSubmit_index s fetch) = [] \<and> data (fst (handleSubmit_index s fetch)) = None)
   \<or> handleSubmit_index s fetch =
        run_scrape errorMessage_index (s\<lparr>error := None, data := None\<rparr>)
          (scrape_request (js ''http://localhost:8000/scrape'')
             (tokenize (itemIdsText s)) (maxReviews s)) fetch"
  by (cases "tokenize (itemIdsText s) = []")
     (simp_all add: handleSubmit_index_empty handleSubmit_index_sent)

lemma body_scrape_request:
  "request.body (scrape_request endpoint ids n) = \<lparr>item_ids = ids, max_reviews_per_item = n\<rparr>"
  by (simp add: scrape_request_def)

lemma handleSubmit_bodies:
  "req \<in> set (snd (handleSubmit s fetch)) \<Longrightarrow> max_reviews_per_item (request.body req) = maxReviews s"
  using handleSubmit_cases [of s fetch]
  by (auto simp: run_scrape_requests body_scrape_request)

lemma handleSubmit_index_bodies:
  "req \<in> set (snd (handleSubmit_index s fetch)) \<Longrightarrow> max_reviews_per_item (request.body req) = maxReviews s"
  using handleSubmit_index_cases [of s fetch]
  by (auto simp: run_scrape_requests body_scrape_request)

lemma entered_sent:
  "snd (handleSubmit (entered (js ''5337824985'') n) fetch)
     = [scrape_request (js ''https://walmart-scraper-59d8.onrender.com/scrape'') [js ''5337824985''] n]"
  using handleSubmit_accepted [of "entered (js ''5337824985'') n" fetch] tokenize_one valid_5337824985
  by (simp add: run_scrape_requests entered_def)

lemma entered_stored:
  "data (fst (handleSubmit (entered (js ''5337824985'') n) (answering (ok_with j)))) = Some j"
  using handleSubmit_accepted [of "entered (js ''5337824985'') n" "answering (ok_with j)"]
    tokenize_one valid_5337824985
  by (simp add: entered_def run_scrape_def try_scrape_def answering_def ok_with_def ok_def Let_def)

text \<open>
  Claim C2, as amended. For the identifiers \<open>5337824985\<close> and \<open>bad\<close> with 5 as the number
  of reviews, the page of \<open>part_000\<close> rejects the whole submission: no request is issued,
  \<open>data\<close> stays null and the error message names \<open>bad\<close>; the well-formed identifier is
  not processed. The page of \<open>index.tsx\<close> sends one request that carries both identifiers
  and 5; what comes back is decided by the server.
\<close>

theorem batch_with_bad_id:
  assumes "tokenize (itemIdsText s) = [js ''5337824985'', js ''bad'']" and "maxReviews s = 5"
  shows "snd (handleSubmit s fetch) = []
     \<and> data (fst (handleSubmit s fetch)) = None
     \<and> error (fst (handleSubmit s fetch)) = Some (invalidMessage (js ''bad''))
     \<and> map request.body (snd (handleSubmit_index s fetch))
         = [\<lparr>item_ids = [js ''5337824985'', js ''bad''], max_reviews_per_item = 5\<rparr>]"
proof -
  have "invalidIds [js ''5337824985'', js ''bad''] = [js ''bad'']"
    using valid_5337824985 invalid_bad by (simp add: invalidIds_def)
  with assms have "handleSubmit s fetch
      = (s\<lparr>error := None, data := None, error := Some (invalidMessage (js ''bad''))\<rparr>, [])"
    by (simp add: handleSubmit_def Let_def)
  moreover from assms have "map request.body (snd (handleSubmit_index s fetch))
         = [\<lparr>item_ids = [js ''5337824985'', js ''bad''], max_reviews_per_item = 5\<rparr>]"
    by (simp add: handleSubmit_index_sent run_scrape_requests body_scrape_request)
  ultimately show ?thesis by simp
qed

theorem batch_with_bad_id_witness:
  "tokenize (itemIdsText (entered (js ''5337824985,bad'') 5)) = [js ''5337824985'', js ''bad'']
   \<and> maxReviews (entered (js ''5337824985,bad'') 5) = 5
   \<and> error (fst (handleSubmit (entered (js ''5337824985,bad'') 5) (answering (ok_with sample_response))))
       = Some (invalidMessage (js ''bad''))
   \<and> map request.body
        (snd (handleSubmit_index (entered (js ''5337824985,bad'') 5) (answering (ok_with sample_response))))
       = [\<lparr>item_ids = [js ''5337824985'', js ''bad''], max_reviews_per_item = 5\<rparr>]"
  using batch_with_bad_id [of "entered (js ''5337824985,bad'') 5" "answering (ok_with sample_response)"]
    tokenize_two
  by (simp add: entered_def)

text \<open>
  Against a server ready to answer with the result for \<open>5337824985\<close> and the error for
  \<open>bad\<close>, the page of \<open>part_000\<close> asks nothing and shows no data.
\<close>

theorem batch_with_bad_id_counterexample:
  "tokenize (js ''5337824985,bad'') = [js ''5337824985'', js ''bad'']
   \<and> snd (handleSubmit (entered (js ''5337824985,bad'') 5) (answering (ok_with sample_response))) = []
   \<and> data (fst (handleSubmit (entered (js ''5337824985,bad'') 5) (answering (ok_with sample_response)))) = None"
proof -
  have "tokenize (itemIdsText (entered (js ''5337824985,bad'') 5)) = [js ''5337824985'', js ''bad'']"
    by (simp add: entered_def tokenize_two)
  then have "\<exists>ident \<in> set (tokenize (itemIdsText (entered (js ''5337824985,bad'') 5))). isInvalidId ident"
    using invalid_bad by simp
  then show ?thesis
    using handleSubmit_rejected(1,3) [of "entered (js ''5337824985,bad'') 5"] tokenize_two by simp
qed

text \<open>
  Claim C3, as amended. In the page of \<open>part_000\<close> a submission whose list of identifiers
  is empty or has more than 10 entries is rejected: an error is set and no request is
  issued. The page of \<open>index.tsx\<close> rejects the empty list in the same way, and has no
  bound on the number of identifiers: a list of more than 10 is sent to the endpoint.
\<close>

theorem malformed_list_rejected:
  "(tokenize (itemIdsText s) = [] \<or> length (tokenize (itemIdsText s)) > 10 \<longrightarrow>
      snd (handleSubmit s fetch) = [] \<and> error (fst (handleSubmit s fetch)) \<noteq> None)
   \<and> (tokenize (itemIdsText s) = [] \<longrightarrow>
      snd (handleSubmit_index s fetch) = [] \<and> error (fst (handleSubmit_index s fetch)) \<noteq> None)
   \<and> (length (tokenize (itemIdsText s)) > 10 \<longrightarrow>
      snd (handleSubmit_index s fetch) =
        [scrape_request (js ''http://localhost:8000/scrape'') (tokenize (itemIdsText s)) (maxReviews s)])"
proof (intro conjI impI)
  assume a: "tokenize (itemIdsText s) = [] \<or> length (tokenize (itemIdsText s)) > 10"
  then show "snd (handleSubmit s fetch) = []"
    using handleSubmit_rejected(1) [of s fetch] by blast
  from a show "error (fst (handleSubmit s fetch)) \<noteq> None"
    using handleSubmit_rejected(2) [of s fetch] by blast
next
  assume "tokenize (itemIdsText s) = []"
  then show "snd (handleSubmit_index s fetch) = []"
    by (simp add: handleSubmit_index_empty)
next
  assume "tokenize (itemIdsText s) = []"
  then show "error (fst (handleSubmit_index s fetch)) \<noteq> None"
    by (simp add: handleSubmit_index_empty)
next
  assume "length (tokenize (itemIdsText s)) > 10"
  then have "tokenize (itemIdsText s) \<noteq> []" by auto
  then show "snd (handleSubmit_index s fetch) =
        [scrape_request (js ''http://localhost:8000/scrape'') (tokenize (itemIdsText s)) (maxReviews s)]"
    by (simp add: handleSubmit_index_sent run_scrape_requests)
qed

theorem malformed_list_rejected_witness:
  "length (tokenize (itemIdsText (entered eleven_ids 5))) > 10
   \<and> snd (handleSubmit (entered eleven_ids 5) (answering (ok_with sample_response))) = []
   \<and> error (fst (handleSubmit (entered eleven_ids 5) (answering (ok_with sample_response)))) \<noteq> None
   \<and> tokenize (itemIdsText (entered (js '' ,  '') 5)) = []
   \<and> snd (handleSubmit_index (entered (js '' ,  '') 5) (answering (ok_with sample_response))) = []"
  using malformed_list_rejected [of "entered eleven_ids 5" "answering (ok_with sample_response)"]
    malformed_list_rejected [of "entered (js '' ,  '') 5" "answering (ok_with sample_response)"]
    tokenize_eleven tokenize_separators_only
  by (simp add: entered_def)

text \<open>The page of \<open>index.tsx\<close>, given eleven identifiers, issues its request.\<close>

theorem eleven_ids_sent_counterexample:
  "length (tokenize eleven_ids) = 11
   \<and> snd (handleSubmit_index (entered eleven_ids 5) (answering (ok_with sample_response)))
       = [scrape_request (js ''http://localhost:8000/scrape'') (tokenize eleven_ids) 5]"
proof -
  have "tokenize (itemIdsText (entered eleven_ids 5)) \<noteq> []"
    using tokenize_eleven by (auto simp: entered_def)
  then show ?thesis
    using tokenize_eleven
    by (simp add: handleSubmit_index_sent run_scrape_requests) (simp add: entered_def)
qed

text \<open>
  In the page of \<open>part_000\<close>, whenever one of the identifiers entered fails the check of
  the page, the submission is rejected before the request is built: an error is set, no
  request is issued and no data is stored.
\<close>

lemma invalid_id_blocks_fetch:
  assumes "\<exists>ident \<in> set (tokenize (itemIdsText s)). isInvalidId ident"
  shows "snd (handleSubmit s fetch) = [] \<and> error (fst (handleSubmit s fetch)) \<noteq> None
         \<and> data (fst (handleSubmit s fetch)) = None"
  using handleSubmit_rejected [of s fetch] assms by blast

text \<open>
  Claim C4. The claim has no request issued when one of the identifiers fails the format
  rule. \<open>ab-cd-\<close> fails the rule, with four characters left after stripping; it passes the
  check of the page, which compares the unstripped length, and the request is issued and
  its answer stored.
\<close>

theorem short_stripped_id_fetched:
  "tokenize (js ''ab-cd-'') = [js ''ab-cd-'']
   \<and> \<not> spec_accepts (js ''ab-cd-'')
   \<and> snd (handleSubmit (entered (js ''ab-cd-'') 5) (answering (ok_with sample_response)))
       = [scrape_request (js ''https://walmart-scraper-59d8.onrender.com/scrape'') [js ''ab-cd-''] 5]
   \<and> data (fst (handleSubmit (entered (js ''ab-cd-'') 5) (answering (ok_with sample_response))))
       = Some sample_response"
proof -
  have tok: "tokenize (js ''ab-cd-'') = [js ''ab-cd-'']"
    by (simp add: tokenize_def split_sep_def js_def isSep_def isWhiteSpace_def trim_def)
  have passes: "\<not> isInvalidId (js ''ab-cd-'')"
    by (simp add: isInvalidId_def cleaned_def replace_all_empty_def js_def isAlnum_def)
  have fails: "\<not> spec_accepts (js ''ab-cd-'')"
    by (simp add: spec_accepts_def cleaned_def replace_all_empty_def js_def)
  have "handleSubmit (entered (js ''ab-cd-'') 5) (answering (ok_with sample_response))
      = run_scrape errorMessage (entered (js ''ab-cd-'') 5\<lparr>error := None, data := None\<rparr>)
          (scrape_request (js ''https://walmart-scraper-59d8.onrender.com/scrape'') [js ''ab-cd-''] 5)
          (answering (ok_with sample_response))"
    using handleSubmit_accepted [of "entered (js ''ab-cd-'') 5" "answering (ok_with sample_response)"]
      tok passes
    by (simp add: entered_def)
  then show ?thesis
    using tok fails
    by (simp add: run_scrape_def try_scrape_def answering_def ok_with_def ok_def Let_def)
qed

lemma satisfies_constraints_range:
  assumes "satisfies_constraints inp v" and "min_attr inp = 1" and "max_attr inp \<le> 10000"
  shows "1 \<le> v \<and> v \<le> 10000 \<and> of_int \<lfloor>v\<rfloor> = v"
proof -
  from assms(1) have lo: "min_attr inp \<le> v" and hi: "v \<le> max_attr inp"
    and w: "of_int \<lfloor>v - min_attr inp\<rfloor> = v - min_attr inp"
    unfolding satisfies_constraints_def by blast+
  from w have "v = of_int \<lfloor>v - 1\<rfloor> + 1"
    unfolding assms(2) by linarith
  then have "v = of_int (\<lfloor>v - 1\<rfloor> + 1)"
    by (simp only: of_int_add of_int_1)
  then obtain k :: int where k: "v = of_int k" ..
  have "of_int \<lfloor>v\<rfloor> = v"
    unfolding k by (simp only: floor_of_int)
  with lo hi assms(2,3) show ?thesis by linarith
qed

text \<open>
  Claim C5. Every request that a submission of the form sends, in either page, carries
  as \<open>max_reviews_per_item\<close> an integer from 1 to 10000. The handler copies the number of
  the \<open>maxReviews\<close> field into the body unchanged; the range is the one declared on the
  field (\<open>min\<close> 1 and \<open>max\<close> 10000, or 500 in the page of \<open>index.tsx\<close>), which the form
  checks before it runs the handler.
\<close>

theorem max_reviews_within_range:
  "\<forall>req \<in> set (snd (submit_form s fetch)) \<union> set (snd (submit_form_index s fetch)).
      1 \<le> max_reviews_per_item (request.body req)
      \<and> max_reviews_per_item (request.body req) \<le> 10000
      \<and> of_int \<lfloor>max_reviews_per_item (request.body req)\<rfloor> = max_reviews_per_item (request.body req)"
proof
  fix req
  assume "req \<in> set (snd (submit_form s fetch)) \<union> set (snd (submit_form_index s fetch))"
  then consider
      "satisfies_constraints maxReviews_input (maxReviews s)" "req \<in> set (snd (handleSubmit s fetch))"
    | "satisfies_constraints maxReviews_input_index (maxReviews s)"
      "req \<in> set (snd (handleSubmit_index s fetch))"
    by (auto simp: submit_form_def submit_form_index_def split: if_splits)
  then show "1 \<le> max_reviews_per_item (request.body req)
      \<and> max_reviews_per_item (request.body req) \<le> 10000
      \<and> of_int \<lfloor>max_reviews_per_item (request.body req)\<rfloor> = max_reviews_per_item (request.body req)"
  proof cases
    case 1
    then show ?thesis
      using satisfies_constraints_range [of maxReviews_input "maxReviews s"]
      by (simp add: handleSubmit_bodies maxReviews_input_def)
  next
    case 2
    then show ?thesis
      using satisfies_constraints_range [of maxReviews_input_index "maxReviews s"]
      by (simp add: handleSubmit_index_bodies maxReviews_input_index_def)
  qed
qed

theorem max_reviews_within_range_witness:
  "snd (submit_form (entered (js ''5337824985'') 5) (answering (ok_with sample_response)))
     = [scrape_request (js ''https://walmart-scraper-59d8.onrender.com/scrape'') [js ''5337824985''] 5]
   \<and> (1 :: real) \<le> max_reviews_per_item (request.body
        (scrape_request (js ''https://walmart-scraper-59d8.onrender.com/scrape'') [js ''5337824985''] 5))
   \<and> max_reviews_per_item (request.body
        (scrape_request (js ''https://walmart-scraper-59d8.onrender.com/scrape'') [js ''5337824985''] 5))
        \<le> 10000
   \<and> snd (submit_form (entered (js ''5337824985'') 0) (answering (ok_with sample_response))) = []"
proof -
  have sent: "snd (submit_form (entered (js ''5337824985'') 5) (answering (ok_with sample_response)))
     = [scrape_request (js ''https://walmart-scraper-59d8.onrender.com/scrape'') [js ''5337824985''] 5]"
    by (simp add: submit_form_def satisfies_constraints_def maxReviews_input_def entered_sent)
       (simp add: entered_def)
  have blocked: "snd (submit_form (entered (js ''5337824985'') 0) (answering (ok_with sample_response))) = []"
    by (simp add: submit_form_def satisfies_constraints_def maxReviews_input_def entered_def)
  from max_reviews_within_range [of "entered (js ''5337824985'') 5" "answering (ok_with sample_response)"]
    sent blocked
  show ?thesis by simp
qed

text \<open>
  Claim C9. For a text and a number such that the identifiers read from the text are at
  least one and at most 10 and all pass the format check, the handlers of both pages
  issue one request each, and the two bodies are the same: the identifiers read from the
  text and the number. No identifier read from a text is the empty string.
\<close>

theorem same_request_body:
  assumes "itemIdsText s = txt" and "itemIdsText s' = txt"
    and "maxReviews s = n" and "maxReviews s' = n"
    and "tokenize txt \<noteq> []" and "length (tokenize txt) \<le> 10"
    and "\<forall>ident \<in> set (tokenize txt). \<not> isInvalidId ident"
  shows "map request.body (snd (handleSubmit s fetch))
           = [\<lparr>item_ids = tokenize txt, max_reviews_per_item = n\<rparr>]
     \<and> map request.body (snd (handleSubmit_index s' fetch'))
           = [\<lparr>item_ids = tokenize txt, max_reviews_per_item = n\<rparr>]
     \<and> [] \<notin> set (tokenize txt)"
  using assms handleSubmit_accepted [of s fetch] handleSubmit_index_sent [of s' fetch']
  by (simp add: run_scrape_requests body_scrape_request tokenize_no_empty)

theorem same_request_body_witness:
  "tokenize (js ''5337824985'') \<noteq> [] \<and> length (tokenize (js ''5337824985'')) \<le> 10
   \<and> \<not> isInvalidId (js ''5337824985'')
   \<and> map request.body
        (snd (handleSubmit (entered (js ''5337824985'') 5) (answering (ok_with sample_response))))
       = [\<lparr>item_ids = [js ''5337824985''], max_reviews_per_item = 5\<rparr>]
   \<and> map request.body
        (snd (handleSubmit_index (entered (js ''5337824985'') 5) (answering (Rejects NotAnError))))
       = [\<lparr>item_ids = [js ''5337824985''], max_reviews_per_item = 5\<rparr>]"
  using same_request_body [of "entered (js ''5337824985'') 5" "js ''5337824985''"
      "entered (js ''5337824985'') 5" 5 "answering (ok_with sample_response)"
      "answering (Rejects NotAnError)"]
    tokenize_one valid_5337824985
  by (simp add: entered_def)

text \<open>
  Claim C10. When the request of a submission fails, by a rejected \<open>fetch\<close> or by a
  response whose status is not from 200 to 299, the handler of either page ends with
  \<open>data\<close> null and \<open>loading\<close> false, whatever \<open>data\<close> held before.
\<close>

theorem failed_scrape_leaves_no_data:
  "(snd (handleSubmit s fetch) = [req] \<and> scrape_failed (fetch req) \<longrightarrow>
      data (fst (handleSubmit s fetch)) = None \<and> loading (fst (handleSubmit s fetch)) = False)
   \<and> (snd (handleSubmit_index s fetch) = [req] \<and> scrape_failed (fetch req) \<longrightarrow>
      data (fst (handleSubmit_index s fetch)) = None
      \<and> loading (fst (handleSubmit_index s fetch)) = False)"
proof (intro conjI impI)
  assume a: "snd (handleSubmit s fetch) = [req] \<and> scrape_failed (fetch req)"
  with handleSubmit_cases [of s fetch]
  have run: "handleSubmit s fetch =
        run_scrape errorMessage (s\<lparr>error := None, data := None\<rparr>)
          (scrape_request (js ''https://walmart-scraper-59d8.onrender.com/scrape'')
             (tokenize (itemIdsText s)) (maxReviews s)) fetch"
    by auto
  with a have req: "req = scrape_request (js ''https://walmart-scraper-59d8.onrender.com/scrape'')
             (tokenize (itemIdsText s)) (maxReviews s)"
    by (simp add: run_scrape_requests)
  from a show "data (fst (handleSubmit s fetch)) = None"
    unfolding run req by (simp add: run_scrape_failed_data)
  show "loading (fst (handleSubmit s fetch)) = False"
    unfolding run by (rule run_scrape_loading)
next
  assume a: "snd (handleSubmit_index s fetch) = [req] \<and> scrape_failed (fetch req)"
  with handleSubmit_index_cases [of s fetch]
  have run: "handleSubmit_index s fetch =
        run_scrape errorMessage_index (s\<lparr>error := None, data := None\<rparr>)
          (scrape_request (js ''http://localhost:8000/scrape'')
             (tokenize (itemIdsText s)) (maxReviews s)) fetch"
    by auto
  with a have req: "req = scrape_request (js ''http://localhost:8000/scrape'')
             (tokenize (itemIdsText s)) (maxReviews s)"
    by (simp add: run_scrape_requests)
  from a show "data (fst (handleSubmit_index s fetch)) = None"
    unfolding run req by (simp add: run_scrape_failed_data)
  show "loading (fst (handleSubmit_index s fetch)) = False"
    unfolding run by (rule run_scrape_loading)
qed

theorem failed_scrape_leaves_no_data_witness:
  "snd (handleSubmit
          \<lparr>itemIdsText = js ''5337824985'', maxReviews = 5, loading = False,
            data = Some sample_response, error = None\<rparr>
          (answering (Resolves \<lparr>status = 500, text_of = Inr [], json_of = Inl NotAnError\<rparr>)))
     = [scrape_request (js ''https://walmart-scraper-59d8.onrender.com/scrape'') [js ''5337824985''] 5]
   \<and> scrape_failed (Resolves \<lparr>status = 500, text_of = Inr [], json_of = Inl NotAnError\<rparr>)
   \<and> data (fst (handleSubmit
          \<lparr>itemIdsText = js ''5337824985'', maxReviews = 5, loading = False,
            data = Some sample_response, error = None\<rparr>
          (answering (Resolves \<lparr>status = 500, text_of = Inr [], json_of = Inl NotAnError\<rparr>)))) = None
   \<and> loading (fst (handleSubmit
          \<lparr>itemIdsText = js ''5337824985'', maxReviews = 5, loading = False,
            data = Some sample_response, error = None\<rparr>
          (answering (Resolves \<lparr>status = 500, text_of = Inr [], json_of = Inl NotAnError\<rparr>)))) = False"
proof -
  let ?s = "\<lparr>itemIdsText = js ''5337824985'', maxReviews = 5, loading = False,
            data = Some sample_response, error = None\<rparr>"
  let ?out = "Resolves \<lparr>status = 500, text_of = Inr [], json_of = Inl NotAnError\<rparr>"
  let ?req = "scrape_request (js ''https://walmart-scraper-59d8.onrender.com/scrape'') [js ''5337824985''] 5"
  have sent: "snd (handleSubmit ?s (answering ?out)) = [?req]"
    using handleSubmit_accepted [of ?s "answering ?out"] tokenize_one valid_5337824985
    by (simp add: run_scrape_requests)
  have failed: "scrape_failed (answering ?out ?req)"
    by (simp add: answering_def scrape_failed_def ok_def)
  from failed_scrape_leaves_no_data [of ?s "answering ?out" ?req] sent failed
  show ?thesis by (simp add: answering_def)
qed

lemma stored_shows:
  "shows_results (s\<lparr>loading := False, data := Some j\<rparr>) \<longleftrightarrow> (\<exists>rs. results j = Some rs \<and> rs \<noteq> [])"
  "shows_errors (s\<lparr>loading := False, data := Some j\<rparr>) \<longleftrightarrow> (\<exists>es. errors j = Some es \<and> es \<noteq> [])"
  by (auto simp: shows_results_def shows_errors_def split: option.splits)

lemma handleSubmit_stores:
  assumes "snd (handleSubmit s fetch) = [req]" and "fetch req = Resolves res" and "ok res"
    and "json_of res = Inr j"
  shows "fst (handleSubmit s fetch) = s\<lparr>error := None, data := None\<rparr>\<lparr>loading := False, data := Some j\<rparr>"
proof -
  from assms(1) handleSubmit_cases [of s fetch]
  have run: "handleSubmit s fetch =
      run_scrape errorMessage (s\<lparr>error := None, data := None\<rparr>)
        (scrape_request (js ''https://walmart-scraper-59d8.onrender.com/scrape'')
           (tokenize (itemIdsText s)) (maxReviews s)) fetch"
    by auto
  with assms(1) have "req = scrape_request (js ''https://walmart-scraper-59d8.onrender.com/scrape'')
           (tokenize (itemIdsText s)) (maxReviews s)"
    by (simp add: run_scrape_requests)
  with assms(2-4) show ?thesis
    unfolding run by (simp only: run_scrape_ok_data)
qed

lemma handleSubmit_index_stores:
  assumes "snd (handleSubmit_index s fetch) = [req]" and "fetch req = Resolves res" and "ok res"
    and "json_of res = Inr j"
  shows "fst (handleSubmit_index s fetch)
           = s\<lparr>error := None, data := None\<rparr>\<lparr>loading := False, data := Some j\<rparr>"
proof -
  from assms(1) handleSubmit_index_cases [of s fetch]
  have run: "handleSubmit_index s fetch =
      run_scrape errorMessage_index (s\<lparr>error := None, data := None\<rparr>)
        (scrape_request (js ''http://localhost:8000/scrape'')
           (tokenize (itemIdsText s)) (maxReviews s)) fetch"
    by auto
  with assms(1) have "req = scrape_request (js ''http://localhost:8000/scrape'')
           (tokenize (itemIdsText s)) (maxReviews s)"
    by (simp add: run_scrape_requests)
  with assms(2-4) show ?thesis
    unfolding run by (simp only: run_scrape_ok_data)
qed

text \<open>
  Claim C6, as amended. A batch response, as the pages type it, is a record whose
  \<open>results\<close> list and \<open>errors\<close> list are each optional. When the request succeeds the
  handler of either page stores the parsed response as it came, with or without either
  field, and each of the two sections is shown exactly when its field is present and not
  empty. Every entry of either list carries its own \<open>item_id\<close>.
\<close>

theorem response_fields_optional:
  "(snd (handleSubmit s fetch) = [req] \<and> fetch req = Resolves res \<and> ok res \<and> json_of res = Inr j \<longrightarrow>
      data (fst (handleSubmit s fetch)) = Some j
      \<and> (shows_results (fst (handleSubmit s fetch)) \<longleftrightarrow> (\<exists>rs. results j = Some rs \<and> rs \<noteq> []))
      \<and> (shows_errors (fst (handleSubmit s fetch)) \<longleftrightarrow> (\<exists>es. errors j = Some es \<and> es \<noteq> [])))
   \<and> (snd (handleSubmit_index s fetch) = [req] \<and> fetch req = Resolves res \<and> ok res
        \<and> json_of res = Inr j \<longrightarrow>
      data (fst (handleSubmit_index s fetch)) = Some j
      \<and> (shows_results (fst (handleSubmit_index s fetch)) \<longleftrightarrow> (\<exists>rs. results j = Some rs \<and> rs \<noteq> []))
      \<and> (shows_errors (fst (handleSubmit_index s fetch)) \<longleftrightarrow> (\<exists>es. errors j = Some es \<and> es \<noteq> [])))"
proof (intro conjI impI)
  assume "snd (handleSubmit s fetch) = [req] \<and> fetch req = Resolves res \<and> ok res \<and> json_of res = Inr j"
  then have e: "fst (handleSubmit s fetch)
      = s\<lparr>error := None, data := None\<rparr>\<lparr>loading := False, data := Some j\<rparr>"
    using handleSubmit_stores by blast
  show "data (fst (handleSubmit s fetch)) = Some j"
    unfolding e by simp
  show "shows_results (fst (handleSubmit s fetch)) \<longleftrightarrow> (\<exists>rs. results j = Some rs \<and> rs \<noteq> [])"
    unfolding e by (rule stored_shows)
  show "shows_errors (fst (handleSubmit s fetch)) \<longleftrightarrow> (\<exists>es. errors j = Some es \<and> es \<noteq> [])"
    unfolding e by (rule stored_shows)
next
  assume "snd (handleSubmit_index s fetch) = [req] \<and> fetch req = Resolves res \<and> ok res
    \<and> json_of res = Inr j"
  then have e: "fst (handleSubmit_index s fetch)
      = s\<lparr>error := None, data := None\<rparr>\<lparr>loading := False, data := Some j\<rparr>"
    using handleSubmit_index_stores by blast
  show "data (fst (handleSubmit_index s fetch)) = Some j"
    unfolding e by simp
  show "shows_results (fst (handleSubmit_index s fetch)) \<longleftrightarrow> (\<exists>rs. results j = Some rs \<and> rs \<noteq> [])"
    unfolding e by (rule stored_shows)
  show "shows_errors (fst (handleSubmit_index s fetch)) \<longleftrightarrow> (\<exists>es. errors j = Some es \<and> es \<noteq> [])"
    unfolding e by (rule stored_shows)
qed

theorem response_fields_optional_witness:
  "snd (handleSubmit (entered (js ''5337824985'') 5)
          (answering (ok_with \<lparr>results = Some [sample_product], errors = None\<rparr>)))
     = [scrape_request (js ''https://walmart-scraper-59d8.onrender.com/scrape'') [js ''5337824985''] 5]
   \<and> data (fst (handleSubmit (entered (js ''5337824985'') 5)
          (answering (ok_with \<lparr>results = Some [sample_product], errors = None\<rparr>))))
     = Some \<lparr>results = Some [sample_product], errors = None\<rparr>
   \<and> shows_results (fst (handleSubmit (entered (js ''5337824985'') 5)
          (answering (ok_with \<lparr>results = Some [sample_product], errors = None\<rparr>))))
   \<and> \<not> shows_errors (fst (handleSubmit (entered (js ''5337824985'') 5)
          (answering (ok_with \<lparr>results = Some [sample_product], errors = None\<rparr>))))"
  using response_fields_optional [of "entered (js ''5337824985'') 5"
      "answering (ok_with \<lparr>results = Some [sample_product], errors = None\<rparr>)"
      "scrape_request (js ''https://walmart-scraper-59d8.onrender.com/scrape'') [js ''5337824985''] 5"
      "\<lparr>status = 200, text_of = Inl NotAnError,
        json_of = Inr \<lparr>results = Some [sample_product], errors = None\<rparr>\<rparr>"
      "\<lparr>results = Some [sample_product], errors = None\<rparr>"]
    entered_sent [of 5 "answering (ok_with \<lparr>results = Some [sample_product], errors = None\<rparr>)"]
  by (simp add: answering_def ok_with_def ok_def)

text \<open>A response with neither field is stored as the batch response.\<close>

theorem response_without_fields_counterexample:
  "data (fst (handleSubmit (entered (js ''5337824985'') 5)
          (answering (ok_with \<lparr>results = None, errors = None\<rparr>))))
     = Some \<lparr>results = None, errors = None\<rparr>
   \<and> results \<lparr>results = None, errors = None\<rparr> = None
   \<and> errors \<lparr>results = None, errors = None\<rparr> = None"
  by (simp add: entered_stored)


section \<open>Properties of the rendering\<close>

lemma colours_differ: "js ''#f59e0b'' \<noteq> js ''#e2e8f0''"
  by (simp add: js_def)

lemma classes_differ:
  "js ''star-filled'' \<noteq> js ''star-half''" "js ''star-filled'' \<noteq> js ''star-empty''"
  "js ''star-half'' \<noteq> js ''star-empty''"
  by (simp_all add: js_def)

lemma filled_style_count:
  "length (filter filled_style
     (map (\<lambda>i. \<lparr>color = (if int i < n then js ''#f59e0b''
                          else if int i = n \<and> h then js ''#f59e0b'' else js ''#e2e8f0''),
                 opacity = (if int i = n \<and> h then 1 / 2 else 1)\<rparr>) [0..<k]))
   = nat (min (int k) (max 0 n))"
  using colours_differ by (induction k) (auto simp: filled_style_def)

lemma half_style_count:
  "length (filter half_style
     (map (\<lambda>i. \<lparr>color = (if int i < n then js ''#f59e0b''
                          else if int i = n \<and> h then js ''#f59e0b'' else js ''#e2e8f0''),
                 opacity = (if int i = n \<and> h then 1 / 2 else 1)\<rparr>) [0..<k]))
   \<le> 1"
  using colours_differ by (induction k) (auto simp: half_style_def)

lemma filled_class_count:
  "length (filter filled_class
     (map (\<lambda>i. if int i < n then js ''star-filled''
               else if int i = n \<and> h then js ''star-half'' else js ''star-empty'') [0..<k]))
   = nat (min (int k) (max 0 n))"
  using classes_differ by (induction k) (auto simp: filled_class_def)

lemma half_class_count:
  "length (filter half_class
     (map (\<lambda>i. if int i < n then js ''star-filled''
               else if int i = n \<and> h then js ''star-half'' else js ''star-empty'') [0..<k]))
   \<le> 1"
  using classes_differ by (induction k) (auto simp: half_class_def)

lemma renderStars_nonzero:
  "r \<noteq> 0 \<Longrightarrow> renderStars (Some r) =
     StarSpan (map (\<lambda>i. \<lparr>color = (if int i < \<lfloor>r\<rfloor> then js ''#f59e0b''
                          else if int i = \<lfloor>r\<rfloor> \<and> rem1 r \<ge> 1 / 2 then js ''#f59e0b''
                          else js ''#e2e8f0''),
                 opacity = (if int i = \<lfloor>r\<rfloor> \<and> rem1 r \<ge> 1 / 2 then 1 / 2 else 1)\<rparr>) [0..<5])"
  by (simp add: renderStars_def Let_def)

lemma renderStars_index_nonzero:
  "r \<noteq> 0 \<Longrightarrow> renderStars_index (Some r) =
     StarSpan (map (\<lambda>i. if int i < \<lfloor>r\<rfloor> then js ''star-filled''
               else if int i = \<lfloor>r\<rfloor> \<and> rem1 r \<ge> 1 / 2 then js ''star-half''
               else js ''star-empty'') [0..<5])"
  by (simp add: renderStars_index_def Let_def)

lemma renderStars_filled:
  "r \<noteq> 0 \<Longrightarrow> count_where filled_style (renderStars (Some r)) = nat (min 5 (max 0 \<lfloor>r\<rfloor>))"
  unfolding renderStars_nonzero count_where_def stars.case filled_style_count by simp

lemma renderStars_half:
  "r \<noteq> 0 \<Longrightarrow> count_where half_style (renderStars (Some r)) \<le> 1"
  unfolding renderStars_nonzero count_where_def stars.case by (rule half_style_count)

lemma renderStars_index_filled:
  "r \<noteq> 0 \<Longrightarrow> count_where filled_class (renderStars_index (Some r)) = nat (min 5 (max 0 \<lfloor>r\<rfloor>))"
  unfolding renderStars_index_nonzero count_where_def stars.case filled_class_count by simp

lemma renderStars_index_half:
  "r \<noteq> 0 \<Longrightarrow> count_where half_class (renderStars_index (Some r)) \<le> 1"
  unfolding renderStars_index_nonzero count_where_def stars.case by (rule half_class_count)

lemma renderStars_five:
  "r \<noteq> 0 \<Longrightarrow> star_count (renderStars (Some r)) = 5 \<and> star_count (renderStars_index (Some r)) = 5"
  by (simp add: renderStars_def renderStars_index_def star_count_def Let_def)

lemma renderStars_falsy:
  "renderStars None = NotAvailable" "renderStars (Some 0) = NotAvailable"
  "renderStars_index None = NotAvailable" "renderStars_index (Some 0) = NotAvailable"
  by (simp_all add: renderStars_def renderStars_index_def)

text \<open>
  Claim C8, as amended. \<open>renderStars\<close> of either page returns the text \<open>N/A\<close> for a rating
  that is null or 0. For every other number it draws exactly 5 stars, at most one of them
  a half star, and the number of filled stars is the floor of the rating brought into the
  range from 0 to 5: it is the floor itself for a rating above 0 and below 6, it is 5
  for a rating of 6 or more and 0 for a negative one.
\<close>

theorem renderStars_stars:
  "renderStars None = NotAvailable \<and> renderStars (Some 0) = NotAvailable
   \<and> renderStars_index None = NotAvailable \<and> renderStars_index (Some 0) = NotAvailable
   \<and> (r \<noteq> 0 \<longrightarrow>
        star_count (renderStars (Some r)) = 5
        \<and> count_where filled_style (renderStars (Some r)) = nat (min 5 (max 0 \<lfloor>r\<rfloor>))
        \<and> count_where half_style (renderStars (Some r)) \<le> 1
        \<and> star_count (renderStars_index (Some r)) = 5
        \<and> count_where filled_class (renderStars_index (Some r)) = nat (min 5 (max 0 \<lfloor>r\<rfloor>))
        \<and> count_where half_class (renderStars_index (Some r)) \<le> 1)
   \<and> (0 < r \<and> r < 6 \<longrightarrow>
        int (count_where filled_style (renderStars (Some r))) = \<lfloor>r\<rfloor>
        \<and> int (count_where filled_class (renderStars_index (Some r))) = \<lfloor>r\<rfloor>)"
proof -
  have "0 \<le> \<lfloor>r\<rfloor> \<and> \<lfloor>r\<rfloor> \<le> 5" if "0 < r" "r < 6"
    using that by (simp add: floor_less_iff le_floor_iff)
  then show ?thesis
    using renderStars_falsy renderStars_five [of r] renderStars_filled [of r] renderStars_half [of r]
      renderStars_index_filled [of r] renderStars_index_half [of r]
    by auto
qed

theorem renderStars_stars_witness:
  "(7 / 2 :: real) \<noteq> 0
   \<and> star_count (renderStars (Some (7 / 2))) = 5
   \<and> count_where filled_style (renderStars (Some (7 / 2))) = 3
   \<and> count_where half_style (renderStars (Some (7 / 2))) \<le> 1
   \<and> count_where filled_class (renderStars_index (Some (7 / 2))) = 3"
  using renderStars_stars [of "7 / 2"] by simp

text \<open>A rating of 7 has floor 7 and is drawn as five filled stars out of five.\<close>

theorem renderStars_seven_counterexample:
  "renderStars (Some 7) \<noteq> NotAvailable
   \<and> star_count (renderStars (Some 7)) = 5
   \<and> count_where filled_style (renderStars (Some 7)) = 5
   \<and> \<lfloor>7 :: real\<rfloor> = 7
   \<and> count_where filled_class (renderStars_index (Some 7)) = 5"
  by (simp add: renderStars_def renderStars_index_def star_count_def count_where_def Let_def
      filled_style_def filled_class_def upt_rec)


section \<open>Properties of the review parser\<close>

lemma parse_Parsed:
  assumes "parse placeholder normalize_date block = Parsed r"
  shows "(name_field block \<noteq> None \<or> body_field block \<noteq> None)
     \<and> author_name r = parse_author placeholder (name_field block)
     \<and> rating r = parse_rating (star_count_indicator block)
     \<and> title r = text_or_empty (title_field block)
     \<and> Review.body r = text_or_empty (body_field block)
     \<and> images r = image_urls block"
  using assms by (auto simp: parse_def split: if_splits)

lemma parse_all_origin:
  "r \<in> set (parse_all placeholder normalize_date blocks)
     \<longleftrightarrow> (\<exists>block \<in> set blocks. parse placeholder normalize_date block = Parsed r)"
proof (induction blocks)
  case Nil
  show ?case by simp
next
  case (Cons block blocks)
  show ?case
  proof (cases "parse placeholder normalize_date block")
    case Skip
    with Cons show ?thesis by simp
  next
    case (Parsed review)
    with Cons show ?thesis by auto
  qed
qed

lemma parse_rating_range: "spec_rating (parse_rating indicator)"
  by (cases indicator) (simp_all add: parse_rating_def spec_rating_def)

text \<open>
  Claim C7. Every review that the parser gives for a sequence of raw blocks comes from a
  block of the sequence in which the name or the body was found, and in it: \<open>author_name\<close>
  is the name found, or the placeholder when none was; \<open>rating\<close> is null or an integer
  from 1 to 5, the count of the indicator; \<open>title\<close> and \<open>body\<close> are the texts found, or the
  empty string; \<open>images\<close> is the list of the image addresses of the block, in their order
  and possibly empty. The fields of the record are strings and a list, so none of them is
  null.
\<close>

theorem parsed_review_fields:
  assumes "r \<in> set (parse_all placeholder normalize_date blocks)"
  shows "spec_rating (rating r)
     \<and> (\<exists>block \<in> set blocks.
           (name_field block \<noteq> None \<or> body_field block \<noteq> None)
           \<and> author_name r = (case name_field block of None \<Rightarrow> placeholder | Some name \<Rightarrow> name)
           \<and> (rating r = None
                \<or> (\<exists>n. star_count_indicator block = Some n \<and> 1 \<le> n \<and> n \<le> 5
                      \<and> rating r = Some (of_int n)))
           \<and> title r = (case title_field block of None \<Rightarrow> [] | Some t \<Rightarrow> t)
           \<and> Review.body r = (case body_field block of None \<Rightarrow> [] | Some t \<Rightarrow> t)
           \<and> images r = image_urls block)"
proof -
  from assms obtain block where b: "block \<in> set blocks"
    and p: "parse placeholder normalize_date block = Parsed r"
    unfolding parse_all_origin ..
  note fields = parse_Parsed [OF p]
  from fields have range: "spec_rating (rating r)"
    by (simp add: parse_rating_range)
  have from_indicator: "rating r = None
      \<or> (\<exists>n. star_count_indicator block = Some n \<and> 1 \<le> n \<and> n \<le> 5 \<and> rating r = Some (of_int n))"
    using fields by (cases "star_count_indicator block") (auto simp: parse_rating_def)
  have "(name_field block \<noteq> None \<or> body_field block \<noteq> None)
           \<and> author_name r = (case name_field block of None \<Rightarrow> placeholder | Some name \<Rightarrow> name)
           \<and> (rating r = None
                \<or> (\<exists>n. star_count_indicator block = Some n \<and> 1 \<le> n \<and> n \<le> 5
                      \<and> rating r = Some (of_int n)))
           \<and> title r = (case title_field block of None \<Rightarrow> [] | Some t \<Rightarrow> t)
           \<and> Review.body r = (case body_field block of None \<Rightarrow> [] | Some t \<Rightarrow> t)
           \<and> images r = image_urls block"
    using fields from_indicator by (simp add: parse_author_def text_or_empty_def)
  with b range show ?thesis by blast
qed

lemma parse_samples:
  "parse_all (js ''Anonymous'') Some [sample_block, stars_only_block, bare_block]
     = [sample_review,
        \<lparr>review_id = None, author_name = js ''Anonymous'', rating = None, title = [],
         body = js ''Works.'', created_at = None, verified_purchase = False, location = None,
         helpful_count = 0, not_helpful_count = 0,
         images = [js ''https://i5.walmartimages.com/a.jpg'']\<rparr>]"
  by (simp add: parse_def sample_block_def stars_only_block_def bare_block_def sample_review_def
      parse_author_def parse_rating_def text_or_empty_def)

theorem parsed_review_fields_witness:
  "sample_review \<in> set (parse_all (js ''Anonymous'') Some [sample_block, stars_only_block, bare_block])
   \<and> spec_rating (rating sample_review)
   \<and> rating sample_review = Some 5
   \<and> author_name sample_review = js ''John Doe''
   \<and> length (parse_all (js ''Anonymous'') Some [sample_block, stars_only_block, bare_block]) = 2"
proof -
  have mem: "sample_review
      \<in> set (parse_all (js ''Anonymous'') Some [sample_block, stars_only_block, bare_block])"
    unfolding parse_samples by simp
  have len: "length (parse_all (js ''Anonymous'') Some [sample_block, stars_only_block, bare_block]) = 2"
    unfolding parse_samples by simp
  from parsed_review_fields [OF mem] have "spec_rating (rating sample_review)"
    by (rule conjunct1)
  moreover have "rating sample_review = Some 5" and "author_name sample_review = js ''John Doe''"
    by (simp_all add: sample_review_def)
  ultimately show ?thesis
    using mem len by (intro conjI)
qed

end
